theory Spec2Isabelle
  imports Complex_Main "HOL-Library.AList"
begin

section \<open>Values and documents\<close>

text \<open>
  The values a document holds. A Python \<open>float\<close> is modelled by the real number it
  denotes (the code only compares prices, and comparison of finite floats is exact);
  an \<open>ObjectId\<close> by a natural number; a \<open>date\<close> by year, month, day; a naive
  \<open>datetime\<close> by year, month, day, hour, minute, second, microsecond.
  \<open>VTextOf v\<close> is the string \<open>str(v)\<close> of a float or a list, whose characters
  the model does not spell out.
\<close>

datatype val =
    VNone
  | VBool bool
  | VInt int
  | VFloat real
  | VStr string
  | VList "val list"
  | VObjectId nat
  | VDate nat nat nat
  | VDateTime nat nat nat nat nat nat nat
  | VTextOf val

text \<open>
  A Python \<open>dict\<close> with string keys, in insertion order: \<open>d.get(k)\<close> is
  \<open>map_of d k\<close>, \<open>d[k] = v\<close> is \<open>AList.update k v d\<close> (the entry keeps its place
  when the key is there, and is appended otherwise), \<open>d.pop(k)\<close> is
  \<open>AList.delete k d\<close>.
\<close>

type_synonym doc = "(string \<times> val) list"

subsection \<open>Text forms\<close>

definition digit :: "nat \<Rightarrow> char" where
  "digit d = ''0123456789abcdef'' ! d"

fun dec :: "nat \<Rightarrow> string" where
  "dec n = (if n < 10 then [digit n] else dec (n div 10) @ [digit (n mod 10)])"

declare dec.simps [simp del]

text \<open>The format \<open>%0kd\<close> on a non-negative number.\<close>

definition zpad :: "nat \<Rightarrow> nat \<Rightarrow> string" where
  "zpad k n = replicate (k - length (dec n)) (CHR ''0'') @ dec n"

text \<open>The hexadecimal digits of a number.\<close>

fun hex :: "nat \<Rightarrow> string" where
  "hex n = (if n < 16 then [digit n] else hex (n div 16) @ [digit (n mod 16)])"

declare hex.simps [simp del]

text \<open>
  \<open>str\<close> of an \<open>ObjectId\<close>: the 24 hexadecimal digits of its 12 bytes, with leading
  zeros.
\<close>

definition oid_text :: "nat \<Rightarrow> string" where
  "oid_text n = replicate (24 - length (hex n)) (CHR ''0'') @ hex n"

definition date_iso :: "nat \<Rightarrow> nat \<Rightarrow> nat \<Rightarrow> string" where
  "date_iso y m d = zpad 4 y @ ''-'' @ zpad 2 m @ ''-'' @ zpad 2 d"

definition time_iso :: "nat \<Rightarrow> nat \<Rightarrow> nat \<Rightarrow> nat \<Rightarrow> string" where
  "time_iso h mi s us =
     zpad 2 h @ '':'' @ zpad 2 mi @ '':'' @ zpad 2 s @
     (if us = 0 then [] else ''.'' @ zpad 6 us)"

text \<open>\<open>hasattr(v, "isoformat")\<close> and \<open>v.isoformat()\<close>.\<close>

fun has_isoformat :: "val \<Rightarrow> bool" where
  "has_isoformat (VDate y m d) = True"
| "has_isoformat (VDateTime y m d h mi s us) = True"
| "has_isoformat v = False"

fun isoformat :: "val \<Rightarrow> string" where
  "isoformat (VDate y m d) = date_iso y m d"
| "isoformat (VDateTime y m d h mi s us) = date_iso y m d @ ''T'' @ time_iso h mi s us"
| "isoformat v = []"

text \<open>Python's truth value of an object, as \<open>if d.get("_id")\<close> reads it.\<close>

fun truthy :: "val \<Rightarrow> bool" where
  "truthy VNone = False"
| "truthy (VBool b) = b"
| "truthy (VInt i) = (i \<noteq> 0)"
| "truthy (VFloat r) = (r \<noteq> 0)"
| "truthy (VStr s) = (s \<noteq> [])"
| "truthy (VList xs) = (xs \<noteq> [])"
| "truthy (VObjectId n) = True"
| "truthy (VDate y m d) = True"
| "truthy (VDateTime y m d h mi s us) = True"
| "truthy (VTextOf v) = True"

text \<open>\<open>str(v)\<close>, as a string value.\<close>

fun py_str :: "val \<Rightarrow> val" where
  "py_str VNone = VStr ''None''"
| "py_str (VBool b) = VStr (if b then ''True'' else ''False'')"
| "py_str (VInt i) = VStr (if i < 0 then ''-'' @ dec (nat (- i)) else dec (nat i))"
| "py_str (VStr s) = VStr s"
| "py_str (VObjectId n) = VStr (oid_text n)"
| "py_str (VDate y m d) = VStr (date_iso y m d)"
| "py_str (VDateTime y m d h mi s us) = VStr (date_iso y m d @ '' '' @ time_iso h mi s us)"
| "py_str (VTextOf v) = VTextOf v"
| "py_str v = VTextOf v"

section \<open>Schemas (schemas.py)\<close>

text \<open>
  A field of a request body: absent, an explicit \<open>null\<close>, or a value of the declared
  type.
\<close>

datatype 'a field = Absent | Null | Given 'a

text \<open>A field declared \<open>T = Field(...)\<close>: required, and \<open>None\<close> is not a \<open>T\<close>.\<close>

fun required :: "('a \<Rightarrow> bool) \<Rightarrow> 'a field \<Rightarrow> 'a option" where
  "required ok (Given v) = (if ok v then Some v else None)"
| "required ok f = None"

text \<open>
  A field declared \<open>Optional[T] = Field(default, ...)\<close>: the default when absent,
  \<open>None\<close> on an explicit null, and the constraints on a value.
\<close>

fun optional :: "'a option \<Rightarrow> ('a \<Rightarrow> bool) \<Rightarrow> 'a field \<Rightarrow> 'a option option" where
  "optional dflt ok Absent = Some dflt"
| "optional dflt ok Null = Some None"
| "optional dflt ok (Given v) = (if ok v then Some (Some v) else None)"

text \<open>A field declared \<open>List[T] = Field(default_factory=list)\<close>.\<close>

fun listed :: "('a \<Rightarrow> bool) \<Rightarrow> 'a list field \<Rightarrow> 'a list option" where
  "listed ok Absent = Some []"
| "listed ok Null = None"
| "listed ok (Given xs) = (if list_all ok xs then Some xs else None)"

definition anything :: "'a \<Rightarrow> bool" where
  "anything v = True"

subsection \<open>Dealer\<close>

record dealer =
  name :: string
  email :: string
  phone :: "string option"
  city :: "string option"
  state :: "string option"
  rating :: "real option"

record dealer_body =
  b_name :: "string field"
  b_email :: "string field"
  b_phone :: "string field"
  b_city :: "string field"
  b_state :: "string field"
  b_rating :: "real field"

text \<open>
  The fields of a body that fail their declaration, in declaration order
  (the \<open>loc\<close> of each error of the schema violation). Validation gives the
  record when there is none: a required field has its value, an optional field its
  value, \<open>None\<close> for an explicit null, and its default when absent. The name
  \<open>make\<close> is taken by the record package, so the field is \<open>car_make\<close>.
\<close>

definition dealer_errors :: "dealer_body \<Rightarrow> string list" where
  "dealer_errors b =
     (if required anything (b_name b) = None then [''name''] else []) @
     (if required anything (b_email b) = None then [''email''] else []) @
     (if optional None anything (b_phone b) = None then [''phone''] else []) @
     (if optional None anything (b_city b) = None then [''city''] else []) @
     (if optional None anything (b_state b) = None then [''state''] else []) @
     (if optional (Some 4.5) (\<lambda>r. 0 \<le> r \<and> r \<le> 5) (b_rating b) = None
      then [''rating''] else [])"

definition validate_dealer :: "dealer_body \<Rightarrow> string list + dealer" where
  "validate_dealer b =
     (if dealer_errors b \<noteq> [] then Inl (dealer_errors b)
      else Inr \<lparr>
        name = (case b_name b of Given v \<Rightarrow> v | _ \<Rightarrow> []),
        email = (case b_email b of Given v \<Rightarrow> v | _ \<Rightarrow> []),
        phone = (case b_phone b of Given v \<Rightarrow> Some v | _ \<Rightarrow> None),
        city = (case b_city b of Given v \<Rightarrow> Some v | _ \<Rightarrow> None),
        state = (case b_state b of Given v \<Rightarrow> Some v | _ \<Rightarrow> None),
        rating = (case b_rating b of Given v \<Rightarrow> Some v | Null \<Rightarrow> None
                  | Absent \<Rightarrow> Some 4.5)\<rparr>)"

subsection \<open>Car\<close>

record car =
  car_make :: string
  model :: string
  year :: int
  price :: real
  mileage :: "int option"
  fuel_type :: "string option"
  transmission :: "string option"
  body_style :: "string option"
  color :: "string option"
  location :: "string option"
  features :: "string list"
  photos :: "string list"
  dealer_id :: "string option"
  listed_on :: "(nat \<times> nat \<times> nat) option"
  condition :: "string option"

record car_body =
  b_make :: "string field"
  b_model :: "string field"
  b_year :: "int field"
  b_price :: "real field"
  b_mileage :: "int field"
  b_fuel_type :: "string field"
  b_transmission :: "string field"
  b_body_style :: "string field"
  b_color :: "string field"
  b_location :: "string field"
  b_features :: "string list field"
  b_photos :: "string list field"
  b_dealer_id :: "string field"
  b_listed_on :: "(nat \<times> nat \<times> nat) field"
  b_condition :: "string field"

text \<open>
  \<open>HttpUrl\<close> is a type of the validation library; what it accepts is the parameter
  \<open>http_url\<close>.
\<close>

definition car_errors :: "(string \<Rightarrow> bool) \<Rightarrow> car_body \<Rightarrow> string list" where
  "car_errors http_url b =
     (if required anything (b_make b) = None then [''make''] else []) @
     (if required anything (b_model b) = None then [''model''] else []) @
     (if required (\<lambda>y. 1900 \<le> y \<and> y \<le> 2100) (b_year b) = None then [''year''] else []) @
     (if required (\<lambda>p. 0 \<le> p) (b_price b) = None then [''price''] else []) @
     (if optional None (\<lambda>m. 0 \<le> m) (b_mileage b) = None then [''mileage''] else []) @
     (if optional (Some ''Gasoline'') anything (b_fuel_type b) = None
      then [''fuel_type''] else []) @
     (if optional (Some ''Automatic'') anything (b_transmission b) = None
      then [''transmission''] else []) @
     (if optional None anything (b_body_style b) = None then [''body_style''] else []) @
     (if optional None anything (b_color b) = None then [''color''] else []) @
     (if optional None anything (b_location b) = None then [''location''] else []) @
     (if listed anything (b_features b) = None then [''features''] else []) @
     (if listed http_url (b_photos b) = None then [''photos''] else []) @
     (if optional None anything (b_dealer_id b) = None then [''dealer_id''] else []) @
     (if optional None anything (b_listed_on b) = None then [''listed_on''] else []) @
     (if optional (Some ''Used'') anything (b_condition b) = None
      then [''condition''] else [])"

definition validate_car :: "(string \<Rightarrow> bool) \<Rightarrow> car_body \<Rightarrow> string list + car" where
  "validate_car http_url b =
     (if car_errors http_url b \<noteq> [] then Inl (car_errors http_url b)
      else Inr \<lparr>
        car_make = (case b_make b of Given v \<Rightarrow> v | _ \<Rightarrow> []),
        model = (case b_model b of Given v \<Rightarrow> v | _ \<Rightarrow> []),
        year = (case b_year b of Given v \<Rightarrow> v | _ \<Rightarrow> 0),
        price = (case b_price b of Given v \<Rightarrow> v | _ \<Rightarrow> 0),
        mileage = (case b_mileage b of Given v \<Rightarrow> Some v | _ \<Rightarrow> None),
        fuel_type = (case b_fuel_type b of Given v \<Rightarrow> Some v | Null \<Rightarrow> None
                     | Absent \<Rightarrow> Some ''Gasoline''),
        transmission = (case b_transmission b of Given v \<Rightarrow> Some v | Null \<Rightarrow> None
                        | Absent \<Rightarrow> Some ''Automatic''),
        body_style = (case b_body_style b of Given v \<Rightarrow> Some v | _ \<Rightarrow> None),
        color = (case b_color b of Given v \<Rightarrow> Some v | _ \<Rightarrow> None),
        location = (case b_location b of Given v \<Rightarrow> Some v | _ \<Rightarrow> None),
        features = (case b_features b of Given v \<Rightarrow> v | _ \<Rightarrow> []),
        photos = (case b_photos b of Given v \<Rightarrow> v | _ \<Rightarrow> []),
        dealer_id = (case b_dealer_id b of Given v \<Rightarrow> Some v | _ \<Rightarrow> None),
        listed_on = (case b_listed_on b of Given v \<Rightarrow> Some v | _ \<Rightarrow> None),
        condition = (case b_condition b of Given v \<Rightarrow> Some v | Null \<Rightarrow> None
                     | Absent \<Rightarrow> Some ''Used'')\<rparr>)"

subsection \<open>Lead\<close>

text \<open>
  \<open>Lead\<close> has fields \<open>name\<close>, \<open>email\<close> and \<open>phone\<close> as \<open>Dealer\<close> has; they
  are prefixed here.
\<close>

record lead =
  car_id :: string
  lead_name :: string
  lead_email :: string
  lead_phone :: "string option"
  message :: "string option"

section \<open>The document store\<close>

text \<open>
  A filter is a dict from field names to constraints. \<open>Regex p opts\<close> is
  \<open>{"$regex": p, "$options": opts}\<close>; \<open>Bounds lo hi\<close> is the dict that holds
  \<open>"$gte"\<close> when \<open>lo\<close> is there and \<open>"$lte"\<close> when \<open>hi\<close> is there.
\<close>

datatype cond = Exact val | Regex string string | Bounds "real option" "real option"

type_synonym query = "(string \<times> cond) list"

text \<open>
  The store's matcher of regular expressions compiles a pattern and its options, or
  refuses them with a message.
\<close>

type_synonym matcher = "string \<Rightarrow> string \<Rightarrow> string + (string \<Rightarrow> bool)"

text \<open>
  The store, an external collaborator: whether a connection exists (\<open>db is not None\<close>),
  its collections in their natural order, the next identifier it assigns, the
  documents it refuses (with the refusal's message), and its matcher.
\<close>

record store =
  connected :: bool
  collections :: "string \<Rightarrow> doc list"
  next_id :: nat
  rejects :: "string \<Rightarrow> doc \<Rightarrow> string option"
  regex :: matcher

datatype exn =
    StoreUnavailable
  | WriteError string
  | QueryError string
  | ValidationError "string list"

subsection \<open>Filters\<close>

fun number :: "val \<Rightarrow> real option" where
  "number (VInt i) = Some (of_int i)"
| "number (VFloat r) = Some r"
| "number v = None"

definition in_range :: "real option \<Rightarrow> real option \<Rightarrow> real \<Rightarrow> bool" where
  "in_range lo hi x =
     ((case lo of None \<Rightarrow> True | Some l \<Rightarrow> l \<le> x) \<and>
      (case hi of None \<Rightarrow> True | Some h \<Rightarrow> x \<le> h))"

text \<open>
  Modelled from the spec: the meaning of a filter is the store's and the access
  layer's (\<open>database.py\<close>), which are not in the sources. A filter maps a field
  name to an exact-match value or to a range or pattern constraint; a pattern holds of a
  string field that the matcher accepts, a range of a numeric field within its bounds,
  both inclusive; the constraints of a filter combine as a conjunction.
\<close>

fun compile_cond :: "matcher \<Rightarrow> cond \<Rightarrow> string + (val option \<Rightarrow> bool)" where
  "compile_cond rx (Exact w) = Inr (\<lambda>v. v = Some w)"
| "compile_cond rx (Regex p opts) =
     (case rx p opts of
        Inl msg \<Rightarrow> Inl msg
      | Inr m \<Rightarrow> Inr (\<lambda>v. case v of Some (VStr s) \<Rightarrow> m s | _ \<Rightarrow> False))"
| "compile_cond rx (Bounds lo hi) =
     Inr (\<lambda>v. case v of
                None \<Rightarrow> False
              | Some w \<Rightarrow> (case number w of None \<Rightarrow> False | Some x \<Rightarrow> in_range lo hi x))"

fun compile_query :: "matcher \<Rightarrow> query \<Rightarrow> string + (doc \<Rightarrow> bool)" where
  "compile_query rx [] = Inr (\<lambda>d. True)"
| "compile_query rx ((k, c) # q) =
     (case compile_cond rx c of
        Inl msg \<Rightarrow> Inl msg
      | Inr p \<Rightarrow>
          (case compile_query rx q of
             Inl msg \<Rightarrow> Inl msg
           | Inr r \<Rightarrow> Inr (\<lambda>d. p (map_of d k) \<and> r d)))"

section \<open>The access layer (database.py)\<close>

datatype basemodel = CarModel car | DealerModel dealer | LeadModel lead

fun entry :: "string \<Rightarrow> ('a \<Rightarrow> val) \<Rightarrow> 'a option \<Rightarrow> doc" where
  "entry k f None = []"
| "entry k f (Some v) = [(k, f v)]"

definition VStrs :: "string list \<Rightarrow> val" where
  "VStrs xs = VList (map VStr xs)"

definition date_val :: "nat \<times> nat \<times> nat \<Rightarrow> val" where
  "date_val t = (case t of (y, m, d) \<Rightarrow> VDate y m d)"

text \<open>
  Modelled from the spec: the conversion of a record to a plain key-value mapping, part
  of \<open>create_document\<close> in \<open>database.py\<close>, which is not in the sources. All fields
  are preserved, lists as lists, and an optional field is present or absent, with no
  null placeholder.
\<close>

fun mapping :: "basemodel \<Rightarrow> doc" where
  "mapping (CarModel c) =
     [(''make'', VStr (car_make c)), (''model'', VStr (model c)),
      (''year'', VInt (year c)), (''price'', VFloat (price c))] @
     entry ''mileage'' VInt (mileage c) @
     entry ''fuel_type'' VStr (fuel_type c) @
     entry ''transmission'' VStr (transmission c) @
     entry ''body_style'' VStr (body_style c) @
     entry ''color'' VStr (color c) @
     entry ''location'' VStr (location c) @
     [(''features'', VStrs (features c)), (''photos'', VStrs (photos c))] @
     entry ''dealer_id'' VStr (dealer_id c) @
     entry ''listed_on'' date_val (listed_on c) @
     entry ''condition'' VStr (condition c)"
| "mapping (DealerModel d) =
     [(''name'', VStr (name d)), (''email'', VStr (email d))] @
     entry ''phone'' VStr (phone d) @
     entry ''city'' VStr (city d) @
     entry ''state'' VStr (state d) @
     entry ''rating'' VFloat (rating d)"
| "mapping (LeadModel l) =
     [(''car_id'', VStr (car_id l)), (''name'', VStr (lead_name l)),
      (''email'', VStr (lead_email l))] @
     entry ''phone'' VStr (lead_phone l) @
     entry ''message'' VStr (message l)"

text \<open>
  Modelled from the spec: \<open>create_document(kind, record)\<close> of \<open>database.py\<close>, which
  is not in the sources. It fails with \<open>StoreUnavailable\<close> when no connection exists
  and with \<open>WriteError\<close> when the store rejects the insert, with no partial write;
  otherwise exactly one document is persisted in the collection named by the kind, under
  the identifier the store assigns, and the identifier is returned as a string.
\<close>

definition create_document :: "store \<Rightarrow> string \<Rightarrow> basemodel \<Rightarrow> (exn + string) \<times> store" where
  "create_document st kind r =
     (if \<not> connected st then (Inl StoreUnavailable, st)
      else case rejects st kind (mapping r) of
        Some msg \<Rightarrow> (Inl (WriteError msg), st)
      | None \<Rightarrow>
          (Inr (oid_text (next_id st)),
           st\<lparr>collections := (collections st)
                 (kind := collections st kind @ [(''_id'', VObjectId (next_id st)) # mapping r]),
              next_id := Suc (next_id st)\<rparr>))"

text \<open>
  Modelled from the spec: \<open>get_documents(kind, filter, limit)\<close> of \<open>database.py\<close>,
  which is not in the sources. It queries the collection named by the kind with the
  filter, capped at \<open>limit\<close> results (a non-negative integer), in the order the store
  returns them; it fails with \<open>StoreUnavailable\<close> or \<open>QueryError\<close>. The raw documents
  are returned: in \<open>main.py\<close> it is the handlers that normalize them.
\<close>

definition get_documents :: "store \<Rightarrow> string \<Rightarrow> query \<Rightarrow> nat \<Rightarrow> exn + doc list" where
  "get_documents st kind q limit =
     (if \<not> connected st then Inl StoreUnavailable
      else case compile_query (regex st) q of
        Inl msg \<Rightarrow> Inl (QueryError msg)
      | Inr p \<Rightarrow> Inr (take limit (filter p (collections st kind))))"

section \<open>The handlers (main.py)\<close>

text \<open>
  The detail of an error response: \<open>StrOf e\<close> is \<open>str(e)\<close> of the exception caught
  (the text of the exceptions of the store is not in the sources), \<open>Errors\<close> the
  locations a request body fails at.
\<close>

datatype detail = StrOf exn | Errors "string list"

datatype 'a response = Ok 'a | HTTPException nat detail

fun status_code :: "'a response \<Rightarrow> nat" where
  "status_code (Ok x) = 200"
| "status_code (HTTPException c d) = c"

subsection \<open>Creating\<close>

definition create_car :: "store \<Rightarrow> car \<Rightarrow> doc response \<times> store" where
  "create_car st c =
     (case create_document st ''car'' (CarModel c) of
        (Inr new_id, st') \<Rightarrow> (Ok [(''id'', VStr new_id)], st')
      | (Inl e, st') \<Rightarrow> (HTTPException 500 (StrOf e), st'))"

definition create_dealer :: "store \<Rightarrow> dealer \<Rightarrow> doc response \<times> store" where
  "create_dealer st d =
     (case create_document st ''dealer'' (DealerModel d) of
        (Inr new_id, st') \<Rightarrow> (Ok [(''id'', VStr new_id)], st')
      | (Inl e, st') \<Rightarrow> (HTTPException 500 (StrOf e), st'))"

definition create_lead :: "store \<Rightarrow> lead \<Rightarrow> doc response \<times> store" where
  "create_lead st l =
     (case create_document st ''lead'' (LeadModel l) of
        (Inr new_id, st') \<Rightarrow> (Ok [(''id'', VStr new_id)], st')
      | (Inl e, st') \<Rightarrow> (HTTPException 500 (StrOf e), st'))"

text \<open>
  The routes as the framework serves them: the body is validated against the schema of
  the handler's parameter, and a body that fails is answered with status 422 before the
  handler runs.
\<close>

definition post_api_cars :: "(string \<Rightarrow> bool) \<Rightarrow> store \<Rightarrow> car_body \<Rightarrow> doc response \<times> store" where
  "post_api_cars http_url st body =
     (case validate_car http_url body of
        Inl errs \<Rightarrow> (HTTPException 422 (Errors errs), st)
      | Inr c \<Rightarrow> create_car st c)"

definition post_api_dealers :: "store \<Rightarrow> dealer_body \<Rightarrow> doc response \<times> store" where
  "post_api_dealers st body =
     (case validate_dealer body of
        Inl errs \<Rightarrow> (HTTPException 422 (Errors errs), st)
      | Inr d \<Rightarrow> create_dealer st d)"

subsection \<open>Listing\<close>

text \<open>
  The filter \<open>list_cars\<close> builds from its parameters (lines 80 to 91). The parameters
  \<open>make\<close> and \<open>model\<close> are \<open>make_p\<close> and \<open>model_p\<close> here, the names being
  taken.
\<close>

definition list_cars_query ::
  "string option \<Rightarrow> string option \<Rightarrow> real option \<Rightarrow> real option \<Rightarrow> query" where
  "list_cars_query make_p model_p min_price max_price =
     (case make_p of
        None \<Rightarrow> []
      | Some m \<Rightarrow> if m = [] then [] else [(''make'', Regex (''^'' @ m @ ''$'') ''i'')]) @
     (case model_p of
        None \<Rightarrow> []
      | Some m \<Rightarrow> if m = [] then [] else [(''model'', Regex (''^'' @ m @ ''$'') ''i'')]) @
     (case (min_price, max_price) of
        (None, None) \<Rightarrow> []
      | _ \<Rightarrow> [(''price'', Bounds min_price max_price)])"

text \<open>\<open>d["id"] = str(d.pop("_id")) if d.get("_id") else None\<close>\<close>

definition set_id :: "doc \<Rightarrow> doc" where
  "set_id d =
     (case map_of d ''_id'' of
        None \<Rightarrow> AList.update ''id'' VNone d
      | Some v \<Rightarrow>
          if truthy v then AList.update ''id'' (py_str v) (AList.delete ''_id'' d)
          else AList.update ''id'' VNone d)"

text \<open>
  The loop over \<open>list(d.items())\<close>: an entry whose value has \<open>isoformat\<close> gets the
  text, in its place.
\<close>

definition iso_val :: "val \<Rightarrow> val" where
  "iso_val v = (if has_isoformat v then VStr (isoformat v) else v)"

definition iso_entry :: "string \<times> val \<Rightarrow> string \<times> val" where
  "iso_entry e = (case e of (k, v) \<Rightarrow> (k, iso_val v))"

text \<open>\<open>normalize\<close> of \<open>list_cars\<close> and \<open>normalize\<close> of \<open>list_dealers\<close>.\<close>

definition normalize_car :: "doc \<Rightarrow> doc" where
  "normalize_car d = map iso_entry (set_id d)"

definition normalize_dealer :: "doc \<Rightarrow> doc" where
  "normalize_dealer d = set_id d"

text \<open>A \<open>limit\<close> the request omits is \<open>None\<close>, and the handler's default stands for it.\<close>

definition list_cars ::
  "store \<Rightarrow> string option \<Rightarrow> string option \<Rightarrow> real option \<Rightarrow> real option \<Rightarrow> nat option
     \<Rightarrow> doc list response" where
  "list_cars st make_p model_p min_price max_price limit =
     (case get_documents st ''car'' (list_cars_query make_p model_p min_price max_price)
             (case limit of None \<Rightarrow> 20 | Some n \<Rightarrow> n) of
        Inr docs \<Rightarrow> Ok (map normalize_car docs)
      | Inl e \<Rightarrow> HTTPException 500 (StrOf e))"

definition list_dealers :: "store \<Rightarrow> nat option \<Rightarrow> doc list response" where
  "list_dealers st limit =
     (case get_documents st ''dealer'' [] (case limit of None \<Rightarrow> 50 | Some n \<Rightarrow> n) of
        Inr docs \<Rightarrow> Ok (map normalize_dealer docs)
      | Inl e \<Rightarrow> HTTPException 500 (StrOf e))"

subsection \<open>Seeding\<close>

text \<open>
  The keyword arguments of the four \<open>Car(...)\<close> calls of \<open>seed_cars\<close>; the other
  fields are left to their defaults.
\<close>

definition sample ::
  "string \<Rightarrow> string \<Rightarrow> int \<Rightarrow> real \<Rightarrow> int \<Rightarrow> string \<Rightarrow> string \<Rightarrow> string \<Rightarrow> string \<Rightarrow> string
     \<Rightarrow> string list \<Rightarrow> string list \<Rightarrow> car_body" where
  "sample mk mo y p mi fu tr bo co lo fs ps =
     \<lparr>b_make = Given mk, b_model = Given mo, b_year = Given y, b_price = Given p,
      b_mileage = Given mi, b_fuel_type = Given fu, b_transmission = Given tr,
      b_body_style = Given bo, b_color = Given co, b_location = Given lo,
      b_features = Given fs, b_photos = Given ps, b_dealer_id = Absent,
      b_listed_on = Absent, b_condition = Absent\<rparr>"

definition samples :: "car_body list" where
  "samples =
     [sample ''Tesla'' ''Model 3'' 2022 32990 12000 ''Electric'' ''Automatic'' ''Sedan'' ''White''
        ''San Francisco, CA'' [''Autopilot'', ''Heated Seats'', ''Panoramic Roof'']
        [''https://images.unsplash.com/photo-1552519507-da3b142c6e3d''],
      sample ''BMW'' ''X5'' 2020 38950 24000 ''Gasoline'' ''Automatic'' ''SUV'' ''Black''
        ''New York, NY'' [''xDrive AWD'', ''Leather'', ''HUD'']
        [''https://images.unsplash.com/photo-1549924231-f129b911e442''],
      sample ''Toyota'' ''Camry'' 2019 18990 36000 ''Hybrid'' ''Automatic'' ''Sedan'' ''Blue''
        ''Austin, TX'' [''Adaptive Cruise'', ''Lane Assist'']
        [''https://images.unsplash.com/photo-1503376780353-7e6692767b70''],
      sample ''Audi'' ''A4'' 2021 29950 18000 ''Gasoline'' ''Automatic'' ''Sedan'' ''Gray''
        ''Seattle, WA'' [''Quattro'', ''Virtual Cockpit'']
        [''https://images.unsplash.com/photo-1511919884226-fd3cad34687c'']]"

text \<open>The list of samples is built first: the first \<open>Car(...)\<close> that fails raises.\<close>

fun construct :: "(string \<Rightarrow> bool) \<Rightarrow> car_body list \<Rightarrow> string list + car list" where
  "construct http_url [] = Inr []"
| "construct http_url (b # bs) =
     (case validate_car http_url b of
        Inl errs \<Rightarrow> Inl errs
      | Inr c \<Rightarrow>
          (case construct http_url bs of
             Inl errs \<Rightarrow> Inl errs
           | Inr cs \<Rightarrow> Inr (c # cs)))"

text \<open>The loop \<open>for c in samples: inserted.append(create_document("car", c))\<close>.\<close>

fun insert_each :: "store \<Rightarrow> car list \<Rightarrow> string list \<Rightarrow> (exn + string list) \<times> store" where
  "insert_each st [] inserted = (Inr inserted, st)"
| "insert_each st (c # cs) inserted =
     (case create_document st ''car'' (CarModel c) of
        (Inr new_id, st') \<Rightarrow> insert_each st' cs (inserted @ [new_id])
      | (Inl e, st') \<Rightarrow> (Inl e, st'))"

definition seed_cars :: "(string \<Rightarrow> bool) \<Rightarrow> store \<Rightarrow> doc response \<times> store" where
  "seed_cars http_url st =
     (case construct http_url samples of
        Inl errs \<Rightarrow> (HTTPException 500 (StrOf (ValidationError errs)), st)
      | Inr cs \<Rightarrow>
          (case insert_each st cs [] of
             (Inr inserted, st') \<Rightarrow>
               (Ok [(''inserted'', VStrs inserted), (''count'', VInt (int (length inserted)))],
                st')
           | (Inl e, st') \<Rightarrow> (HTTPException 500 (StrOf e), st')))"

section \<open>A matcher for a fragment of the store's regular expressions\<close>

text \<open>
  The store matches \<open>$regex\<close> as Perl-compatible regular expressions. \<open>pcre\<close> is that
  matcher on the patterns \<open>^body$\<close> whose body is a sequence of ordinary characters and
  dots, each possibly followed by a star, with the options \<open>i\<close> or none: an ordinary
  character matches itself (with \<open>i\<close>, up to the case of ASCII letters), a dot any
  character but a newline, a starred item any number of repetitions, \<open>^\<close> the start of
  the string and \<open>$\<close> its end or the place before a final newline. Outside the fragment
  \<open>pcre\<close> refuses the pattern, which says nothing about the store there.
\<close>

datatype atom = Lit char | AnyChar

datatype item = One atom | Star atom

definition newline :: char where
  "newline = CHR 0x0A"

definition metachars :: string where
  "metachars = CHR 0x5C # ''^$.|?*+()[]{}''"

definition lower :: "char \<Rightarrow> char" where
  "lower c =
     (case map_of (zip ''ABCDEFGHIJKLMNOPQRSTUVWXYZ'' ''abcdefghijklmnopqrstuvwxyz'') c of
        None \<Rightarrow> c
      | Some l \<Rightarrow> l)"

definition atom_of :: "char \<Rightarrow> atom option" where
  "atom_of c =
     (if c = CHR ''.'' then Some AnyChar
      else if c \<in> set metachars then None
      else Some (Lit c))"

fun parse_items :: "string \<Rightarrow> item list option" where
  "parse_items [] = Some []"
| "parse_items [c] = map_option (\<lambda>a. [One a]) (atom_of c)"
| "parse_items (c # e # cs) =
     (case atom_of c of
        None \<Rightarrow> None
      | Some a \<Rightarrow>
          if e = CHR ''*'' then map_option (Cons (Star a)) (parse_items cs)
          else map_option (Cons (One a)) (parse_items (e # cs)))"

fun atom_matches :: "bool \<Rightarrow> atom \<Rightarrow> char \<Rightarrow> bool" where
  "atom_matches ci AnyChar c = (c \<noteq> newline)"
| "atom_matches ci (Lit a) c = (if ci then lower a = lower c else a = c)"

fun matches :: "bool \<Rightarrow> item list \<Rightarrow> string \<Rightarrow> bool" where
  "matches ci [] s = (s = [] \<or> s = [newline])"
| "matches ci (One a # r) [] = False"
| "matches ci (One a # r) (c # cs) = (atom_matches ci a c \<and> matches ci r cs)"
| "matches ci (Star a # r) [] = matches ci r []"
| "matches ci (Star a # r) (c # cs) =
     (matches ci r (c # cs) \<or> (atom_matches ci a c \<and> matches ci (Star a # r) cs))"

definition pcre :: matcher where
  "pcre p opts =
     (if (opts = ''i'' \<or> opts = []) \<and> 2 \<le> length p \<and> hd p = CHR ''^'' \<and> last p = CHR ''$''
      then (case parse_items (butlast (tl p)) of
              None \<Rightarrow> Inl ''pattern outside the fragment''
            | Some items \<Rightarrow> Inr (matches (opts = ''i'') items))
      else Inl ''pattern outside the fragment'')"

section \<open>Predicates of the properties\<close>

text \<open>A record has a numeric price within the bounds given, both inclusive.\<close>

definition price_within :: "real option \<Rightarrow> real option \<Rightarrow> doc \<Rightarrow> bool" where
  "price_within lo hi r =
     (case map_of r ''price'' of
        None \<Rightarrow> False
      | Some w \<Rightarrow> (case number w of None \<Rightarrow> False | Some x \<Rightarrow> in_range lo hi x))"

text \<open>
  Two strings are equal up to the case of their (ASCII) letters; and a document's field
  \<open>k\<close> is a string that the literal pattern \<open>^m$\<close> accepts, case-insensitively.
\<close>

definition same_ignoring_case :: "string \<Rightarrow> string \<Rightarrow> bool" where
  "same_ignoring_case s m = (map lower s = map lower m)"

definition literal_field :: "string \<Rightarrow> string \<Rightarrow> doc \<Rightarrow> bool" where
  "literal_field k m d =
     (case map_of d k of
        Some (VStr s) \<Rightarrow> matches True (map (One \<circ> Lit) m) s
      | _ \<Rightarrow> False)"

text \<open>
  The documents a collection gains when the store persists the records \<open>cs\<close> in turn,
  the first under the identifier \<open>n\<close>.
\<close>

fun stored_from :: "nat \<Rightarrow> car list \<Rightarrow> doc list" where
  "stored_from n [] = []"
| "stored_from n (c # cs) =
     ((''_id'', VObjectId n) # mapping (CarModel c)) # stored_from (Suc n) cs"

text \<open>The four sample records, as validation builds them.\<close>

definition sample_cars :: "car list" where
  "sample_cars =
     [\<lparr>car_make = ''Tesla'', model = ''Model 3'', year = 2022, price = 32990,
       mileage = Some 12000, fuel_type = Some ''Electric'', transmission = Some ''Automatic'',
       body_style = Some ''Sedan'', color = Some ''White'',
       location = Some ''San Francisco, CA'',
       features = [''Autopilot'', ''Heated Seats'', ''Panoramic Roof''],
       photos = [''https://images.unsplash.com/photo-1552519507-da3b142c6e3d''],
       dealer_id = None, listed_on = None, condition = Some ''Used''\<rparr>,
      \<lparr>car_make = ''BMW'', model = ''X5'', year = 2020, price = 38950,
       mileage = Some 24000, fuel_type = Some ''Gasoline'', transmission = Some ''Automatic'',
       body_style = Some ''SUV'', color = Some ''Black'', location = Some ''New York, NY'',
       features = [''xDrive AWD'', ''Leather'', ''HUD''],
       photos = [''https://images.unsplash.com/photo-1549924231-f129b911e442''],
       dealer_id = None, listed_on = None, condition = Some ''Used''\<rparr>,
      \<lparr>car_make = ''Toyota'', model = ''Camry'', year = 2019, price = 18990,
       mileage = Some 36000, fuel_type = Some ''Hybrid'', transmission = Some ''Automatic'',
       body_style = Some ''Sedan'', color = Some ''Blue'', location = Some ''Austin, TX'',
       features = [''Adaptive Cruise'', ''Lane Assist''],
       photos = [''https://images.unsplash.com/photo-1503376780353-7e6692767b70''],
       dealer_id = None, listed_on = None, condition = Some ''Used''\<rparr>,
      \<lparr>car_make = ''Audi'', model = ''A4'', year = 2021, price = 29950,
       mileage = Some 18000, fuel_type = Some ''Gasoline'', transmission = Some ''Automatic'',
       body_style = Some ''Sedan'', color = Some ''Gray'', location = Some ''Seattle, WA'',
       features = [''Quattro'', ''Virtual Cockpit''],
       photos = [''https://images.unsplash.com/photo-1511919884226-fd3cad34687c''],
       dealer_id = None, listed_on = None, condition = Some ''Used''\<rparr>]"

section \<open>Example data\<close>

definition shop :: store where
  "shop = \<lparr>connected = True,
     collections = (\<lambda>k.
       if k = ''car'' then
         [[(''_id'', VObjectId 10), (''make'', VStr ''Tesla''), (''model'', VStr ''Model 3''),
           (''price'', VFloat 32990), (''listed_on'', VDate 2024 3 9)],
          [(''_id'', VObjectId 11), (''make'', VStr ''Tesla Model''), (''model'', VStr ''S''),
           (''price'', VFloat 25000)],
          [(''_id'', VObjectId 12), (''make'', VStr ''Toyota''), (''model'', VStr ''Camry''),
           (''price'', VFloat 18990)]]
       else if k = ''dealer'' then
         [[(''_id'', VObjectId 13), (''name'', VStr ''Ann''),
           (''email'', VStr ''ann@example.com''), (''rating'', VFloat 4.5)]]
       else []),
     next_id = 14, rejects = (\<lambda>k d. None), regex = pcre\<rparr>"

definition offline :: store where
  "offline = shop\<lparr>connected := False\<rparr>"

definition empty_shop :: store where
  "empty_shop = shop\<lparr>collections := (\<lambda>k. [])\<rparr>"

definition mini :: car where
  "mini = \<lparr>car_make = ''Mini'', model = ''Cooper'', year = 2018, price = 15500,
     mileage = Some 41000, fuel_type = Some ''Gasoline'', transmission = Some ''Manual'',
     body_style = None, color = Some ''Red'', location = None, features = [''Sunroof''],
     photos = [], dealer_id = None, listed_on = Some (2024, 3, 9), condition = Some ''Used''\<rparr>"

section \<open>Evaluating the text of an identifier\<close>

lemma zeros:
  "replicate 23 (CHR ''0'') = ''00000000000000000000000''"
  "replicate 22 (CHR ''0'') = ''0000000000000000000000''"
  by (simp_all add: eval_nat_numeral)

section \<open>Schema validation\<close>

lemma dealer_errors_nil:
  "dealer_errors b = [] \<longleftrightarrow>
     required anything (b_name b) \<noteq> None \<and> required anything (b_email b) \<noteq> None \<and>
     optional None anything (b_phone b) \<noteq> None \<and> optional None anything (b_city b) \<noteq> None \<and>
     optional None anything (b_state b) \<noteq> None \<and>
     optional (Some 4.5) (\<lambda>r. 0 \<le> r \<and> r \<le> 5) (b_rating b) \<noteq> None"
  by (simp add: dealer_errors_def)

lemma car_errors_year: "b_year b = Given 1899 \<Longrightarrow> ''year'' \<in> set (car_errors u b)"
  by (simp add: car_errors_def)

lemma car_errors_price: "b_price b = Given (- 1) \<Longrightarrow> ''price'' \<in> set (car_errors u b)"
  by (simp add: car_errors_def)

text \<open>
  C6. A car-create request whose body has \<open>year = 1899\<close> or \<open>price = -1\<close> fails schema
  validation and is answered with status 422; the store is left as it was and the answer
  is the same whatever the store (even with no connection, where \<open>create_document\<close>
  would have failed): \<open>create_document\<close> is not reached.
\<close>

theorem car_out_of_range_rejected:
  assumes "b_year body = Given 1899 \<or> b_price body = Given (- 1)"
  shows "validate_car http_url body = Inl (car_errors http_url body) \<and>
         car_errors http_url body \<noteq> [] \<and>
         post_api_cars http_url st body =
           (HTTPException 422 (Errors (car_errors http_url body)), st)"
proof -
  have "car_errors http_url body \<noteq> []"
    using assms car_errors_year [of body http_url] car_errors_price [of body http_url]
    by auto
  then show ?thesis
    by (simp add: validate_car_def post_api_cars_def)
qed

theorem car_out_of_range_rejected_witness:
  "post_api_cars (\<lambda>u. True) \<lparr>connected = False, collections = (\<lambda>k. []), next_id = 0,
       rejects = (\<lambda>k d. None), regex = pcre\<rparr>
     (sample ''Ford'' ''Model T'' 1899 500 0 ''Gasoline'' ''Manual'' ''Touring'' ''Black''
        ''Detroit, MI'' [] []) =
   (HTTPException 422 (Errors [''year'']),
    \<lparr>connected = False, collections = (\<lambda>k. []), next_id = 0,
       rejects = (\<lambda>k d. None), regex = pcre\<rparr>)"
proof -
  have y: "b_year (sample ''Ford'' ''Model T'' 1899 500 0 ''Gasoline'' ''Manual'' ''Touring''
      ''Black'' ''Detroit, MI'' [] []) = Given 1899"
    by (simp add: sample_def)
  have e: "car_errors (\<lambda>u. True) (sample ''Ford'' ''Model T'' 1899 500 0 ''Gasoline'' ''Manual''
      ''Touring'' ''Black'' ''Detroit, MI'' [] []) = [''year'']"
    by (simp add: car_errors_def sample_def anything_def)
  show ?thesis
    using car_out_of_range_rejected [of _ "\<lambda>u. True", OF disjI1, OF y] by (simp add: e)
qed

text \<open>
  C7, as the claim states it, fails: a body that gives \<open>rating\<close> as an explicit null is
  accepted (the field is declared \<open>Optional[float]\<close>), and the record's rating is then
  \<open>None\<close>, not a number within 0 and 5.
\<close>

theorem dealer_rating_null_counterexample:
  "validate_dealer \<lparr>b_name = Given ''Ann'', b_email = Given ''ann@example.com'',
     b_phone = Absent, b_city = Absent, b_state = Absent, b_rating = Null\<rparr> =
   Inr \<lparr>name = ''Ann'', email = ''ann@example.com'', phone = None, city = None, state = None,
     rating = None\<rparr>"
  by (simp add: validate_dealer_def dealer_errors_def anything_def)

text \<open>
  C7, amended. For every Dealer record accepted by validation, the rating is either
  \<open>None\<close>, and then the request gave \<open>rating\<close> as an explicit null, or a number within
  0 and 5; when the request omits \<open>rating\<close> it is 4.5.
\<close>

theorem dealer_rating_bounds:
  assumes "validate_dealer b = Inr d"
  shows "(case rating d of None \<Rightarrow> b_rating b = Null | Some r \<Rightarrow> 0 \<le> r \<and> r \<le> 5) \<and>
         (b_rating b = Absent \<longrightarrow> rating d = Some 4.5)"
proof -
  from assms have e: "dealer_errors b = []"
    and d: "rating d = (case b_rating b of Given v \<Rightarrow> Some v | Null \<Rightarrow> None
                        | Absent \<Rightarrow> Some 4.5)"
    by (auto simp: validate_dealer_def split: if_splits)
  from e have "optional (Some 4.5) (\<lambda>r. 0 \<le> r \<and> r \<le> 5) (b_rating b) \<noteq> None"
    by (simp add: dealer_errors_nil)
  with d show ?thesis
    by (cases "b_rating b") (auto split: if_splits)
qed

theorem dealer_rating_bounds_witness:
  "validate_dealer \<lparr>b_name = Given ''Ann'', b_email = Given ''ann@example.com'',
     b_phone = Absent, b_city = Absent, b_state = Absent, b_rating = Absent\<rparr> =
   Inr \<lparr>name = ''Ann'', email = ''ann@example.com'', phone = None, city = None, state = None,
     rating = Some 4.5\<rparr> \<and>
   rating \<lparr>name = ''Ann'', email = ''ann@example.com'', phone = None, city = None,
     state = None, rating = Some 4.5\<rparr> = Some 4.5"
  using dealer_rating_bounds [of "\<lparr>b_name = Given ''Ann'', b_email = Given ''ann@example.com'',
     b_phone = Absent, b_city = Absent, b_state = Absent, b_rating = Absent\<rparr>"
     "\<lparr>name = ''Ann'', email = ''ann@example.com'', phone = None, city = None, state = None,
     rating = Some 4.5\<rparr>"]
  by (simp add: validate_dealer_def dealer_errors_def anything_def)

section \<open>Listing and filters\<close>

lemma map_of_iso: "map_of (map iso_entry d) k = map_option iso_val (map_of d k)"
  by (induction d) (auto simp: iso_entry_def)

lemma map_of_set_id_other:
  "k \<noteq> ''id'' \<Longrightarrow> k \<noteq> ''_id'' \<Longrightarrow> map_of (set_id d) k = map_of d k"
  by (simp add: set_id_def AList.update_conv' AList.delete_conv' split: option.splits)

lemma map_of_normalize_car_other:
  "k \<noteq> ''id'' \<Longrightarrow> k \<noteq> ''_id'' \<Longrightarrow>
   map_of (normalize_car d) k = map_option iso_val (map_of d k)"
  by (simp add: normalize_car_def map_of_iso map_of_set_id_other)

lemma number_iso_val: "number w = Some x \<Longrightarrow> number (iso_val w) = Some x"
  by (cases w) (simp_all add: iso_val_def)

lemma price_within_normalize:
  "price_within lo hi d \<Longrightarrow> price_within lo hi (normalize_car d)"
  by (auto simp: price_within_def map_of_normalize_car_other number_iso_val
      split: option.splits)

lemma compile_query_conj:
  "compile_query rx q = Inr p \<Longrightarrow>
   p d \<longleftrightarrow> (\<forall>(k, c) \<in> set q. \<exists>pc. compile_cond rx c = Inr pc \<and> pc (map_of d k))"
proof (induction q arbitrary: p)
  case Nil
  then show ?case by auto
next
  case (Cons e q)
  obtain k c where e: "e = (k, c)" by (cases e)
  from Cons.prems e obtain pc r where
    pc: "compile_cond rx c = Inr pc" and r: "compile_query rx q = Inr r"
    and p: "p = (\<lambda>d. pc (map_of d k) \<and> r d)"
    by (auto split: sum.splits)
  from Cons.IH [OF r] p pc e show ?case by auto
qed

lemma price_in_query:
  "lo \<noteq> None \<or> hi \<noteq> None \<Longrightarrow> (''price'', Bounds lo hi) \<in> set (list_cars_query mk mo lo hi)"
  by (auto simp: list_cars_query_def split: option.splits)

lemma compile_query_price:
  assumes "compile_query rx q = Inr p" and "(''price'', Bounds lo hi) \<in> set q" and "p d"
  shows "price_within lo hi d"
proof -
  from compile_query_conj [OF assms(1), of d] assms(2,3)
  obtain pc where "compile_cond rx (Bounds lo hi) = Inr pc" and "pc (map_of d ''price'')"
    by fastforce
  then show ?thesis
    by (auto simp: price_within_def split: option.splits)
qed

lemma get_documents_InrD:
  "get_documents st kind q n = Inr ds \<Longrightarrow>
   \<exists>p. connected st \<and> compile_query (regex st) q = Inr p \<and> ds = take n (filter p (collections st kind))"
  by (auto simp: get_documents_def split: if_splits sum.splits)

lemma list_cars_OkD:
  "list_cars st mk mo lo hi limit = Ok rs \<Longrightarrow>
   \<exists>p. connected st \<and> compile_query (regex st) (list_cars_query mk mo lo hi) = Inr p \<and>
       rs = map normalize_car (take (case limit of None \<Rightarrow> 20 | Some n \<Rightarrow> n) (filter p (collections st ''car'')))"
  by (auto simp: list_cars_def dest!: get_documents_InrD split: sum.splits)

text \<open>
  C3. When \<open>list_cars\<close> answers with records: if \<open>min_price\<close> or \<open>max_price\<close> is
  supplied, every record returned has a numeric price within the bounds supplied, both
  inclusive (with 20000 and 30000, a price from 20000 to 30000); the filter holds one
  constraint on \<open>price\<close> that carries both bounds, and none when both are omitted; and
  the records returned are the normalized documents of the collection, in its order and
  up to the limit, that satisfy every constraint of the filter (a conjunction).
\<close>

theorem price_range_filter:
  assumes "list_cars st mk mo lo hi limit = Ok rs"
  shows "(lo \<noteq> None \<or> hi \<noteq> None \<longrightarrow> (\<forall>r \<in> set rs. price_within lo hi r)) \<and>
         map_of (list_cars_query mk mo None None) ''price'' = None \<and>
         (lo \<noteq> None \<or> hi \<noteq> None \<longrightarrow> map_of (list_cars_query mk mo lo hi) ''price'' = Some (Bounds lo hi)) \<and>
         (\<exists>p. compile_query (regex st) (list_cars_query mk mo lo hi) = Inr p \<and>
              rs = map normalize_car
                     (take (case limit of None \<Rightarrow> 20 | Some n \<Rightarrow> n)
                        (filter p (collections st ''car''))) \<and>
              (\<forall>d. p d \<longleftrightarrow>
                 (\<forall>(k, c) \<in> set (list_cars_query mk mo lo hi).
                    \<exists>pc. compile_cond (regex st) c = Inr pc \<and> pc (map_of d k))))"
proof -
  from list_cars_OkD [OF assms] obtain p where
    p: "compile_query (regex st) (list_cars_query mk mo lo hi) = Inr p"
    and rs: "rs = map normalize_car (take (case limit of None \<Rightarrow> 20 | Some n \<Rightarrow> n) (filter p (collections st ''car'')))"
    by blast
  have a: "lo \<noteq> None \<or> hi \<noteq> None \<longrightarrow> (\<forall>r \<in> set rs. price_within lo hi r)"
  proof (intro impI ballI)
    fix r assume b: "lo \<noteq> None \<or> hi \<noteq> None" and "r \<in> set rs"
    with rs obtain d where d: "d \<in> set (take (case limit of None \<Rightarrow> 20 | Some n \<Rightarrow> n) (filter p (collections st ''car'')))" and r: "r = normalize_car d"
      by auto
    from d have "p d" by (auto dest: in_set_takeD)
    have "price_within lo hi d"
      by (rule compile_query_price [OF p price_in_query [OF b] \<open>p d\<close>])
    with r show "price_within lo hi r" by (simp add: price_within_normalize)
  qed
  have b: "map_of (list_cars_query mk mo None None) ''price'' = None"
    by (auto simp: list_cars_query_def split: option.splits)
  have c: "lo \<noteq> None \<or> hi \<noteq> None \<longrightarrow> map_of (list_cars_query mk mo lo hi) ''price'' = Some (Bounds lo hi)"
    by (auto simp: list_cars_query_def split: option.splits)
  have d: "\<forall>d. p d \<longleftrightarrow>
                 (\<forall>(k, c) \<in> set (list_cars_query mk mo lo hi).
                    \<exists>pc. compile_cond (regex st) c = Inr pc \<and> pc (map_of d k))"
    using compile_query_conj [OF p] by blast
  from a b c d p rs show ?thesis by blast
qed

lemma in_range_both: "in_range (Some l) (Some h) x \<longleftrightarrow> l \<le> x \<and> x \<le> h"
  by (simp add: in_range_def)

theorem price_range_filter_witness:
  "list_cars shop None None (Some 20000) (Some 30000) None =
     Ok [[(''make'', VStr ''Tesla Model''), (''model'', VStr ''S''), (''price'', VFloat 25000),
          (''id'', VStr ''00000000000000000000000b'')]] \<and>
   price_within (Some 20000) (Some 30000)
     [(''make'', VStr ''Tesla Model''), (''model'', VStr ''S''), (''price'', VFloat 25000),
      (''id'', VStr ''00000000000000000000000b'')]"
proof -
  have l: "list_cars shop None None (Some 20000) (Some 30000) None =
     Ok [[(''make'', VStr ''Tesla Model''), (''model'', VStr ''S''), (''price'', VFloat 25000),
          (''id'', VStr ''00000000000000000000000b'')]]"
    by (simp add: list_cars_def get_documents_def shop_def list_cars_query_def in_range_def
        normalize_car_def set_id_def iso_entry_def iso_val_def oid_text_def zeros hex.simps digit_def)
  from price_range_filter [OF l] show ?thesis
    by (simp add: l)
qed

lemma list_cars_Ok:
  "connected st \<Longrightarrow> compile_query (regex st) (list_cars_query mk mo lo hi) = Inr p \<Longrightarrow>
   list_cars st mk mo lo hi limit =
     Ok (map normalize_car (take (case limit of None \<Rightarrow> 20 | Some n \<Rightarrow> n) (filter p (collections st ''car''))))"
  by (simp add: list_cars_def get_documents_def)

lemma list_dealers_Ok:
  "connected st \<Longrightarrow>
   list_dealers st limit =
     Ok (map normalize_dealer (take (case limit of None \<Rightarrow> 50 | Some n \<Rightarrow> n) (collections st ''dealer'')))"
  by (simp add: list_dealers_def get_documents_def)

text \<open>
  C5. \<open>get_documents\<close> returns at most \<open>limit\<close> records, and none when \<open>limit\<close> is 0;
  so do the two listings. A listing whose \<open>limit\<close> is omitted is the listing with 20
  for cars and with 50 for dealers. The handlers pass any \<open>limit\<close> on as it is: the
  answer is the first \<open>limit\<close> matching documents, whatever \<open>limit\<close> is.
\<close>

theorem limit_caps_results:
  "(get_documents st kind q limit = Inr ds \<longrightarrow> length ds \<le> limit) \<and>
   (get_documents st kind q 0 = Inr ds \<longrightarrow> ds = []) \<and>
   (list_cars st mk mo lo hi (Some limit) = Ok rs \<longrightarrow> length rs \<le> limit) \<and>
   (list_dealers st (Some limit) = Ok rs \<longrightarrow> length rs \<le> limit) \<and>
   list_cars st mk mo lo hi None = list_cars st mk mo lo hi (Some 20) \<and>
   list_dealers st None = list_dealers st (Some 50) \<and>
   (connected st \<and> compile_query (regex st) (list_cars_query mk mo lo hi) = Inr p \<longrightarrow>
      list_cars st mk mo lo hi (Some limit) =
        Ok (map normalize_car (take limit (filter p (collections st ''car''))))) \<and>
   (connected st \<longrightarrow>
      list_dealers st (Some limit) =
        Ok (map normalize_dealer (take limit (collections st ''dealer''))))"
proof -
  have a: "get_documents st kind q limit = Inr ds \<longrightarrow> length ds \<le> limit"
    by (auto dest!: get_documents_InrD)
  have b: "get_documents st kind q 0 = Inr ds \<longrightarrow> ds = []"
    by (auto dest!: get_documents_InrD)
  have c: "list_cars st mk mo lo hi (Some limit) = Ok rs \<longrightarrow> length rs \<le> limit"
    by (auto dest!: list_cars_OkD)
  have d: "list_dealers st (Some limit) = Ok rs \<longrightarrow> length rs \<le> limit"
    by (auto simp: list_dealers_def dest!: get_documents_InrD split: sum.splits)
  have e: "list_cars st mk mo lo hi None = list_cars st mk mo lo hi (Some 20)"
    by (simp add: list_cars_def)
  have f: "list_dealers st None = list_dealers st (Some 50)"
    by (simp add: list_dealers_def)
  from a b c d e f show ?thesis
    by (simp add: list_cars_Ok list_dealers_Ok)
qed

theorem limit_caps_results_witness:
  "get_documents shop ''car'' [] 2 =
     Inr [[(''_id'', VObjectId 10), (''make'', VStr ''Tesla''), (''model'', VStr ''Model 3''),
           (''price'', VFloat 32990), (''listed_on'', VDate 2024 3 9)],
          [(''_id'', VObjectId 11), (''make'', VStr ''Tesla Model''), (''model'', VStr ''S''),
           (''price'', VFloat 25000)]] \<and>
   get_documents shop ''car'' [] 0 = Inr [] \<and>
   list_dealers shop (Some 0) = Ok [] \<and>
   list_cars shop None None None None (Some 1000) =
     Ok (map normalize_car (collections shop ''car''))"
proof -
  have g: "get_documents shop ''car'' [] 2 =
     Inr [[(''_id'', VObjectId 10), (''make'', VStr ''Tesla''), (''model'', VStr ''Model 3''),
           (''price'', VFloat 32990), (''listed_on'', VDate 2024 3 9)],
          [(''_id'', VObjectId 11), (''make'', VStr ''Tesla Model''), (''model'', VStr ''S''),
           (''price'', VFloat 25000)]]"
    and z: "get_documents shop ''car'' [] 0 = Inr []"
    by (simp_all add: get_documents_def shop_def)
  have c: "connected shop" and l: "length (collections shop ''car'') = 3"
    and q: "compile_query (regex shop) (list_cars_query None None None None) = Inr (\<lambda>d. True)"
    by (simp_all add: shop_def list_cars_query_def)
  from limit_caps_results [where st = shop and kind = "''car''" and q = "[]" and limit = 0
      and ds = "[]" and mk = None and mo = None and lo = None and hi = None and rs = "[]"
      and p = "\<lambda>d. True"]
    limit_caps_results [where st = shop and kind = "''car''" and q = "[]" and limit = 1000
      and ds = "[]" and mk = None and mo = None and lo = None and hi = None and rs = "[]"
      and p = "\<lambda>d. True"]
    g z c q l
  show ?thesis by simp
qed

lemma create_document_fails:
  "create_document st kind r = (Inl e, st') \<Longrightarrow> st' = st"
  by (auto simp: create_document_def split: if_splits option.splits)

text \<open>
  C8. When \<open>create_document\<close> fails with an exception \<open>e\<close> in \<open>create_car\<close>,
  \<open>create_dealer\<close> or \<open>create_lead\<close>, the handler answers with status 500 and the
  detail \<open>str(e)\<close>; the handler returns (a response is its value) and the store is as
  it was.
\<close>

theorem create_failure_answers_500:
  "(create_document st ''car'' (CarModel c) = (Inl e, st') \<longrightarrow>
      create_car st c = (HTTPException 500 (StrOf e), st) \<and> st' = st) \<and>
   (create_document st ''dealer'' (DealerModel d) = (Inl e, st') \<longrightarrow>
      create_dealer st d = (HTTPException 500 (StrOf e), st) \<and> st' = st) \<and>
   (create_document st ''lead'' (LeadModel l) = (Inl e, st') \<longrightarrow>
      create_lead st l = (HTTPException 500 (StrOf e), st) \<and> st' = st)"
  by (auto simp: create_car_def create_dealer_def create_lead_def dest: create_document_fails)

theorem create_failure_answers_500_witness:
  "create_document offline ''car'' (CarModel mini) = (Inl StoreUnavailable, offline) \<and>
   create_car offline mini = (HTTPException 500 (StrOf StoreUnavailable), offline) \<and>
   status_code (fst (create_car offline mini)) = 500"
proof -
  have f: "create_document offline ''car'' (CarModel mini) = (Inl StoreUnavailable, offline)"
    by (simp add: create_document_def offline_def)
  from create_failure_answers_500 [where st = offline and c = mini and e = StoreUnavailable
      and st' = offline] f
  show ?thesis by simp
qed

text \<open>
  C10. An empty string for \<open>make\<close> or \<open>model\<close> gives the filter, and the listing, of
  an absent parameter: no constraint on that field. A \<open>min_price\<close> or \<open>max_price\<close>
  of 0 does give the constraint on \<open>price\<close>, with the bound 0; only when both are
  \<open>None\<close> is there no constraint on \<open>price\<close>.
\<close>

theorem empty_make_is_absent:
  "list_cars_query (Some []) mo lo hi = list_cars_query None mo lo hi \<and>
   list_cars_query mk (Some []) lo hi = list_cars_query mk None lo hi \<and>
   list_cars st (Some []) mo lo hi n = list_cars st None mo lo hi n \<and>
   list_cars st mk (Some []) lo hi n = list_cars st mk None lo hi n \<and>
   map_of (list_cars_query None None lo hi) ''make'' = None \<and>
   map_of (list_cars_query None None lo hi) ''model'' = None \<and>
   map_of (list_cars_query mk mo (Some 0) hi) ''price'' = Some (Bounds (Some 0) hi) \<and>
   map_of (list_cars_query mk mo lo (Some 0)) ''price'' = Some (Bounds lo (Some 0)) \<and>
   map_of (list_cars_query mk mo None None) ''price'' = None"
  by (auto simp: list_cars_query_def list_cars_def split: option.splits)

theorem empty_make_is_absent_witness:
  "list_cars shop (Some []) (Some []) None None None = list_cars shop None None None None None \<and>
   list_cars_query None None (Some 0) None = [(''price'', Bounds (Some 0) None)] \<and>
   list_cars_query None None None None = []"
  using empty_make_is_absent [where mo = "Some []" and mk = None and lo = None and hi = None
      and st = shop and n = None]
  by (simp add: list_cars_query_def)

section \<open>Identifiers and seeding\<close>

text \<open>The text of an identifier determines the identifier.\<close>

lemma digit_inj: "a < 16 \<Longrightarrow> b < 16 \<Longrightarrow> digit a = digit b \<Longrightarrow> a = b"
proof -
  assume a: "a < 16" and b: "b < 16" and e: "digit a = digit b"
  have d: "distinct ''0123456789abcdef''" by simp
  have l: "length ''0123456789abcdef'' = 16" by simp
  from e have "''0123456789abcdef'' ! a = ''0123456789abcdef'' ! b"
    by (simp add: digit_def)
  with d a b l show "a = b"
    by (metis nth_eq_iff_index_eq)
qed

lemma hex_nonempty: "hex n \<noteq> []"
  by (subst hex.simps) simp

lemma hex_inj: "hex n = hex m \<Longrightarrow> n = m"
proof (induction n arbitrary: m rule: hex.induct)
  case (1 n)
  show ?case
  proof (cases "n < 16")
    case True
    show ?thesis
    proof (cases "m < 16")
      case m: True
      from "1.prems" True m have "digit n = digit m"
        by (simp add: hex.simps [of n] hex.simps [of m])
      with digit_inj [OF True m] show ?thesis by simp
    next
      case False
      with "1.prems" True have "[digit n] = hex (m div 16) @ [digit (m mod 16)]"
        by (simp add: hex.simps [of n] hex.simps [of m])
      then show ?thesis using hex_nonempty [of "m div 16"] by simp
    qed
  next
    case False
    show ?thesis
    proof (cases "m < 16")
      case True
      with "1.prems" False have "hex (n div 16) @ [digit (n mod 16)] = [digit m]"
        by (simp add: hex.simps [of n] hex.simps [of m])
      then show ?thesis using hex_nonempty [of "n div 16"] by simp
    next
      case m: False
      from "1.prems" False m
      have "hex (n div 16) @ [digit (n mod 16)] = hex (m div 16) @ [digit (m mod 16)]"
        by (simp add: hex.simps [of n] hex.simps [of m])
      then have h: "hex (n div 16) = hex (m div 16)" and d: "digit (n mod 16) = digit (m mod 16)"
        by simp_all
      from "1.IH" [OF False h] have q: "n div 16 = m div 16" .
      have "n mod 16 < 16" and "m mod 16 < 16" by simp_all
      from digit_inj [OF this d] have r: "n mod 16 = m mod 16" .
      from q r show ?thesis
        by (metis div_mult_mod_eq)
    qed
  qed
qed

lemma hex_head: "0 < n \<Longrightarrow> hd (hex n) \<noteq> CHR ''0''"
proof (induction n rule: hex.induct)
  case (1 n)
  show ?case
  proof (cases "n < 16")
    case True
    have z: "digit 0 = CHR ''0''" by (simp add: digit_def)
    from "1.prems" True digit_inj [of n 0] have "digit n \<noteq> digit 0" by auto
    with True z show ?thesis by (simp add: hex.simps [of n])
  next
    case False
    then have "0 < n div 16" by simp
    from "1.IH" [OF False this] False hex_nonempty [of "n div 16"] show ?thesis
      by (simp add: hex.simps [of n])
  qed
qed

lemma strip_hex:
  "dropWhile (\<lambda>c. c = CHR ''0'') (hex n) = (if n = 0 then [] else hex n)"
proof (cases "n = 0")
  case True
  then show ?thesis by (simp add: hex.simps [of 0] digit_def)
next
  case False
  with hex_head [of n] hex_nonempty [of n] show ?thesis
    by (cases "hex n") simp_all
qed

lemma strip_oid_text:
  "dropWhile (\<lambda>c. c = CHR ''0'') (oid_text n) = (if n = 0 then [] else hex n)"
proof -
  have "dropWhile (\<lambda>c. c = CHR ''0'') (replicate (24 - length (hex n)) (CHR ''0'') @ hex n) =
        dropWhile (\<lambda>c. c = CHR ''0'') (hex n)"
    by (rule dropWhile_append2) simp
  then show ?thesis
    by (simp only: oid_text_def strip_hex)
qed

lemma oid_text_inj: "oid_text n = oid_text m \<Longrightarrow> n = m"
proof -
  assume "oid_text n = oid_text m"
  then have "dropWhile (\<lambda>c. c = CHR ''0'') (oid_text n) =
             dropWhile (\<lambda>c. c = CHR ''0'') (oid_text m)"
    by simp
  then have e: "(if n = 0 then [] else hex n) = (if m = 0 then [] else hex m)"
    by (simp only: strip_oid_text)
  show "n = m"
  proof (cases "n = 0")
    case True
    with e hex_nonempty [of m] show ?thesis by (auto split: if_splits)
  next
    case False
    with e hex_nonempty [of n] have "m \<noteq> 0" and "hex n = hex m"
      by (auto split: if_splits)
    then show ?thesis by (simp add: hex_inj)
  qed
qed

subsection \<open>The seed\<close>

lemma construct_samples: "construct u samples = Inr cs \<Longrightarrow> cs = sample_cars"
  by (auto simp: samples_def sample_def validate_car_def sample_cars_def
      split: if_splits sum.splits)

lemma create_document_Inr:
  "create_document st kind r = (Inr i, st') \<Longrightarrow>
   i = oid_text (next_id st) \<and>
   st' = st\<lparr>collections := (collections st)
             (kind := collections st kind @ [(''_id'', VObjectId (next_id st)) # mapping r]),
           next_id := Suc (next_id st)\<rparr>"
  by (auto simp: create_document_def split: if_splits option.splits)

lemma insert_each_Inr:
  "insert_each st cs acc = (Inr ids, st') \<Longrightarrow>
   ids = acc @ map oid_text [next_id st..<next_id st + length cs] \<and>
   collections st' ''car'' = collections st ''car'' @ stored_from (next_id st) cs \<and>
   next_id st' = next_id st + length cs"
proof (induction cs arbitrary: st acc)
  case Nil
  then show ?case by simp
next
  case (Cons c cs)
  from Cons.prems obtain i st1 where
    c: "create_document st ''car'' (CarModel c) = (Inr i, st1)"
    and r: "insert_each st1 cs (acc @ [i]) = (Inr ids, st')"
    by (auto split: prod.splits sum.splits)
  from create_document_Inr [OF c] have i: "i = oid_text (next_id st)"
    and n: "next_id st1 = Suc (next_id st)"
    and k: "collections st1 ''car'' =
      collections st ''car'' @ [(''_id'', VObjectId (next_id st)) # mapping (CarModel c)]"
    by simp_all
  have u: "[next_id st..<Suc (next_id st + length cs)] =
      next_id st # [Suc (next_id st)..<Suc (next_id st + length cs)]"
    by (rule upt_conv_Cons) simp
  from Cons.IH [OF r] have
    "ids = (acc @ [i]) @ map oid_text [next_id st1..<next_id st1 + length cs]"
    and "collections st' ''car'' = collections st1 ''car'' @ stored_from (next_id st1) cs"
    and "next_id st' = next_id st1 + length cs"
    by simp_all
  with i n k show ?case
    by (simp del: mapping.simps upt_Suc add: u)
qed

lemma length_stored_from: "length (stored_from n cs) = length cs"
  by (induction cs arbitrary: n) simp_all

lemma ids_stored_from:
  "map (\<lambda>d. map_of d ''_id'') (stored_from n cs) =
   map (\<lambda>k. Some (VObjectId k)) [n..<n + length cs]"
proof (induction cs arbitrary: n)
  case Nil
  then show ?case by simp
next
  case (Cons c cs)
  have u: "[n..<Suc (n + length cs)] = n # [Suc n..<Suc (n + length cs)]"
    by (rule upt_conv_Cons) simp
  from Cons.IH [of "Suc n"] show ?case
    by (simp del: mapping.simps upt_Suc add: u)
qed

lemma distinct_stored_twice:
  "distinct (stored_from n cs @ stored_from (n + length cs) cs)"
proof -
  have "map (\<lambda>d. map_of d ''_id'') (stored_from n cs @ stored_from (n + length cs) cs) =
        map (\<lambda>k. Some (VObjectId k)) ([n..<n + length cs] @ [n + length cs..<n + length cs + length cs])"
    by (simp add: ids_stored_from)
  also have "[n..<n + length cs] @ [n + length cs..<n + length cs + length cs] =
             [n..<n + length cs + length cs]"
    by (simp add: upt_add_eq_append [symmetric])
  finally have "distinct (map (\<lambda>d. map_of d ''_id'')
      (stored_from n cs @ stored_from (n + length cs) cs))"
    by (simp add: distinct_map inj_on_def)
  then show ?thesis
    using distinct_map by blast
qed

lemma distinct_oid_text: "distinct (map oid_text [a..<b])"
  by (auto simp: distinct_map inj_on_def dest: oid_text_inj)

lemma length_sample_cars: "length sample_cars = 4"
  by (simp add: sample_cars_def)

lemma seed_cars_Ok:
  assumes "seed_cars u st = (Ok r, st')"
  shows "r = [(''inserted'', VStrs (map oid_text [next_id st..<next_id st + 4])), (''count'', VInt 4)] \<and>
         collections st' ''car'' = collections st ''car'' @ stored_from (next_id st) sample_cars \<and>
         next_id st' = next_id st + 4"
proof -
  from assms obtain cs ids where c: "construct u samples = Inr cs"
    and i: "insert_each st cs [] = (Inr ids, st')"
    and r: "r = [(''inserted'', VStrs ids), (''count'', VInt (int (length ids)))]"
    by (auto simp: seed_cars_def split: sum.splits prod.splits)
  from construct_samples [OF c] have cs: "cs = sample_cars" .
  from insert_each_Inr [OF i] cs r show ?thesis
    by (simp add: length_sample_cars)
qed

text \<open>
  C9. A call of \<open>seed_cars\<close> that answers with success has inserted the four sample
  records, in order, under four fresh identifiers, and returns those identifiers as
  \<open>inserted\<close> with \<open>count\<close> 4. Two calls in succession add eight documents to the
  collection, the four samples twice with nothing left out, the eight documents and
  their eight identifiers pairwise distinct.
\<close>

theorem seed_inserts_four:
  assumes "seed_cars u st = (Ok r1, st1)" and "seed_cars u st1 = (Ok r2, st2)"
  shows "r1 = [(''inserted'', VStrs (map oid_text [next_id st..<next_id st + 4])),
               (''count'', VInt 4)] \<and>
         r2 = [(''inserted'', VStrs (map oid_text [next_id st + 4..<next_id st + 8])),
               (''count'', VInt 4)] \<and>
         collections st1 ''car'' = collections st ''car'' @ stored_from (next_id st) sample_cars \<and>
         collections st2 ''car'' =
           collections st ''car'' @ stored_from (next_id st) sample_cars @
           stored_from (next_id st + 4) sample_cars \<and>
         length (collections st1 ''car'') = length (collections st ''car'') + 4 \<and>
         length (collections st2 ''car'') = length (collections st ''car'') + 8 \<and>
         distinct (map oid_text [next_id st..<next_id st + 4] @
                   map oid_text [next_id st + 4..<next_id st + 8]) \<and>
         distinct (stored_from (next_id st) sample_cars @
                   stored_from (next_id st + 4) sample_cars)"
proof -
  note a = seed_cars_Ok [OF assms(1)] and b = seed_cars_Ok [OF assms(2)]
  have d: "distinct (map oid_text [next_id st..<next_id st + 4] @
                   map oid_text [next_id st + 4..<next_id st + 8])"
  proof -
    have "[next_id st..<(next_id st + 4) + 4] =
          [next_id st..<next_id st + 4] @ [next_id st + 4..<(next_id st + 4) + 4]"
      by (rule upt_add_eq_append) simp
    moreover have "(next_id st + 4) + 4 = next_id st + 8" by simp
    ultimately have "[next_id st..<next_id st + 8] =
          [next_id st..<next_id st + 4] @ [next_id st + 4..<next_id st + 8]"
      by (simp only:)
    with distinct_oid_text [of "next_id st" "next_id st + 8"] show ?thesis
      by (simp only: map_append)
  qed
  have e: "distinct (stored_from (next_id st) sample_cars @
                   stored_from (next_id st + 4) sample_cars)"
    using distinct_stored_twice [of "next_id st" sample_cars]
    by (simp add: length_sample_cars)
  from a b d e show ?thesis
    by (simp add: length_stored_from length_sample_cars add.assoc)
qed

theorem seed_inserts_four_witness:
  "fst (seed_cars (\<lambda>u. True) empty_shop) =
     Ok [(''inserted'', VStrs [''00000000000000000000000e'',
          ''00000000000000000000000f'',
          ''000000000000000000000010'',
          ''000000000000000000000011'']), (''count'', VInt 4)] \<and>
   fst (seed_cars (\<lambda>u. True) (snd (seed_cars (\<lambda>u. True) empty_shop))) =
     Ok [(''inserted'', VStrs [''000000000000000000000012'',
          ''000000000000000000000013'',
          ''000000000000000000000014'',
          ''000000000000000000000015'']), (''count'', VInt 4)] \<and>
   length (collections (snd (seed_cars (\<lambda>u. True)
     (snd (seed_cars (\<lambda>u. True) empty_shop)))) ''car'') = 8"
proof -
  have a: "fst (seed_cars (\<lambda>u. True) empty_shop) =
     Ok [(''inserted'', VStrs [''00000000000000000000000e'',
          ''00000000000000000000000f'',
          ''000000000000000000000010'',
          ''000000000000000000000011'']), (''count'', VInt 4)]"
    by (simp add: seed_cars_def samples_def sample_def validate_car_def car_errors_def
        anything_def create_document_def empty_shop_def shop_def oid_text_def zeros hex.simps digit_def
        VStrs_def)
  have n: "next_id (snd (seed_cars (\<lambda>u. True) empty_shop)) = 18"
    and c: "connected (snd (seed_cars (\<lambda>u. True) empty_shop))"
    and r: "rejects (snd (seed_cars (\<lambda>u. True) empty_shop)) = (\<lambda>k d. None)"
    by (simp_all add: seed_cars_def samples_def sample_def validate_car_def car_errors_def
        anything_def create_document_def empty_shop_def shop_def)
  have b: "fst (seed_cars (\<lambda>u. True) (snd (seed_cars (\<lambda>u. True) empty_shop))) =
     Ok [(''inserted'', VStrs [''000000000000000000000012'',
          ''000000000000000000000013'',
          ''000000000000000000000014'',
          ''000000000000000000000015'']), (''count'', VInt 4)]"
    using n c r
    by (simp add: seed_cars_def [of _ "snd (seed_cars (\<lambda>u. True) empty_shop)"]
        samples_def sample_def validate_car_def car_errors_def
        anything_def create_document_def oid_text_def zeros hex.simps digit_def VStrs_def)
  have e: "collections empty_shop ''car'' = []"
    by (simp add: empty_shop_def)
  have h1: "seed_cars (\<lambda>u. True) empty_shop =
      (Ok [(''inserted'', VStrs [''00000000000000000000000e'',
          ''00000000000000000000000f'',
          ''000000000000000000000010'',
          ''000000000000000000000011'']), (''count'', VInt 4)],
       snd (seed_cars (\<lambda>u. True) empty_shop))"
    using a by (simp add: prod_eq_iff)
  have h2: "seed_cars (\<lambda>u. True) (snd (seed_cars (\<lambda>u. True) empty_shop)) =
      (Ok [(''inserted'', VStrs [''000000000000000000000012'',
          ''000000000000000000000013'',
          ''000000000000000000000014'',
          ''000000000000000000000015'']), (''count'', VInt 4)],
       snd (seed_cars (\<lambda>u. True) (snd (seed_cars (\<lambda>u. True) empty_shop))))"
    using b by (simp add: prod_eq_iff)
  from seed_inserts_four [OF h1 h2] have
    "length (collections (snd (seed_cars (\<lambda>u. True)
       (snd (seed_cars (\<lambda>u. True) empty_shop)))) ''car'') =
     length (collections empty_shop ''car'') + 8"
    by blast
  with a b e show ?thesis
    by simp
qed

section \<open>Create, then list\<close>

lemma delete_absent: "k \<notin> fst ` set m \<Longrightarrow> AList.delete k m = m"
  by (induction m) auto

lemma update_absent: "k \<notin> fst ` set m \<Longrightarrow> AList.update k v m = m @ [(k, v)]"
  by (induction m) auto

lemma entry_set: "(k', v) \<in> set (entry k f x) \<Longrightarrow> k' = k \<and> (\<exists>a. x = Some a \<and> v = f a)"
  by (cases x) auto

lemma map_of_entry: "map_of (entry k f x) k' = (if k' = k then map_option f x else None)"
  by (cases x) auto

lemma mapping_keys:
  "''_id'' \<notin> fst ` set (mapping r)" "''id'' \<notin> fst ` set (mapping r)"
  by (cases r; auto dest!: entry_set)+

lemma set_id_stored:
  assumes "''_id'' \<notin> fst ` set m" and "''id'' \<notin> fst ` set m"
  shows "set_id ((''_id'', VObjectId n) # m) = m @ [(''id'', VStr (oid_text n))]"
  using assms by (simp add: set_id_def delete_absent update_absent)

lemma normalize_car_stored:
  assumes "''_id'' \<notin> fst ` set m" and "''id'' \<notin> fst ` set m"
  shows "normalize_car ((''_id'', VObjectId n) # m) = map iso_entry m @ [(''id'', VStr (oid_text n))]"
  by (simp add: normalize_car_def set_id_stored [OF assms] iso_entry_def iso_val_def)

lemma iso_entry_keeps:
  "\<forall>(k, v) \<in> set m. has_isoformat v \<longrightarrow> k = K \<Longrightarrow> K' \<noteq> K \<Longrightarrow>
   map_of (map iso_entry m) K' = map_of m K'"
  by (induction m) (auto simp: iso_entry_def iso_val_def)

lemma car_mapping_dates:
  "\<forall>(k, v) \<in> set (mapping (CarModel c)). has_isoformat v \<longrightarrow> k = ''listed_on''"
  by (auto dest!: entry_set simp: VStrs_def)

lemma car_mapping_listed_on:
  "map_of (mapping (CarModel c)) ''listed_on'' = map_option date_val (listed_on c)"
  by (cases "listed_on c") (simp_all add: map_of_entry map_add_def)

lemma create_car_Ok:
  "create_car st c = (Ok r, st') \<Longrightarrow>
   r = [(''id'', VStr (oid_text (next_id st)))] \<and> connected st \<and>
   st' = st\<lparr>collections := (collections st)
             (''car'' := collections st ''car'' @
                [(''_id'', VObjectId (next_id st)) # mapping (CarModel c)]),
           next_id := Suc (next_id st)\<rparr>"
  by (auto simp: create_car_def create_document_def split: if_splits option.splits)

text \<open>
  C1, amended. For every valid Car record \<open>c\<close>: when \<open>create_car\<close> succeeds, it returns
  the text of the identifier the store assigned; a listing of the cars with no filter
  and a limit above the number of documents the collection held before then returns,
  after the normalized documents that were there, one record for \<open>c\<close>: the fields of
  \<open>c\<close> in their order, each with its value (a \<open>listed_on\<close> date as its ISO-8601 text),
  and last the field \<open>id\<close> with the identifier that the create call returned.
\<close>

theorem create_then_list:
  assumes "create_car st c = (Ok r, st')" and "length (collections st ''car'') < n"
  shows "r = [(''id'', VStr (oid_text (next_id st)))] \<and>
         list_cars st' None None None None (Some n) =
           Ok (map normalize_car (collections st ''car'') @
               [map iso_entry (mapping (CarModel c)) @ [(''id'', VStr (oid_text (next_id st)))]]) \<and>
         (\<forall>k. k \<noteq> ''listed_on'' \<longrightarrow>
            map_of (map iso_entry (mapping (CarModel c))) k = map_of (mapping (CarModel c)) k) \<and>
         map_of (map iso_entry (mapping (CarModel c))) ''listed_on'' =
           map_option (\<lambda>(y, m, d). VStr (date_iso y m d)) (listed_on c)"
proof -
  note ok = create_car_Ok [OF assms(1)]
  from ok have r: "r = [(''id'', VStr (oid_text (next_id st)))]" by simp
  from ok have c: "connected st'" by simp
  from ok have k: "collections st' ''car'' =
      collections st ''car'' @ [(''_id'', VObjectId (next_id st)) # mapping (CarModel c)]"
    by simp
  have q: "list_cars_query None None None None = []"
    by (simp add: list_cars_query_def)
  have l: "list_cars st' None None None None (Some n) =
      Ok (map normalize_car (take n (collections st' ''car'')))"
    using c by (simp add: list_cars_def get_documents_def q)
  from assms(2) k have t: "take n (collections st' ''car'') =
      collections st ''car'' @ [(''_id'', VObjectId (next_id st)) # mapping (CarModel c)]"
    by simp
  have a: "list_cars st' None None None None (Some n) =
           Ok (map normalize_car (collections st ''car'') @
               [map iso_entry (mapping (CarModel c)) @ [(''id'', VStr (oid_text (next_id st)))]])"
    by (simp add: l t normalize_car_stored [OF mapping_keys] del: mapping.simps)
  have b: "\<forall>k. k \<noteq> ''listed_on'' \<longrightarrow>
            map_of (map iso_entry (mapping (CarModel c))) k = map_of (mapping (CarModel c)) k"
    using iso_entry_keeps [OF car_mapping_dates] by blast
  have d: "map_of (map iso_entry (mapping (CarModel c))) ''listed_on'' =
           map_option (\<lambda>(y, m, d). VStr (date_iso y m d)) (listed_on c)"
  proof -
    have "map_of (map iso_entry (mapping (CarModel c))) ''listed_on'' =
          map_option iso_val (map_option date_val (listed_on c))"
      by (simp only: map_of_iso car_mapping_listed_on)
    also have "\<dots> = map_option (\<lambda>(y, m, d). VStr (date_iso y m d)) (listed_on c)"
      by (cases "listed_on c") (auto simp: date_val_def iso_val_def)
    finally show ?thesis .
  qed
  from r a b d show ?thesis by blast
qed

text \<open>
  C1, as the claim states it, fails: a limit of 1 is at least 1, and on a collection that
  holds documents already the listing returns the first of them, not the record created.
\<close>

theorem create_then_list_counterexample:
  "fst (create_car shop mini) = Ok [(''id'', VStr ''00000000000000000000000e'')] \<and>
   list_cars (snd (create_car shop mini)) None None None None (Some 1) =
     Ok [[(''make'', VStr ''Tesla''), (''model'', VStr ''Model 3''), (''price'', VFloat 32990),
          (''listed_on'', VStr ''2024-03-09''), (''id'', VStr ''00000000000000000000000a'')]]"
  by (simp add: create_car_def create_document_def shop_def list_cars_def get_documents_def
      list_cars_query_def normalize_car_def set_id_def iso_entry_def iso_val_def
      date_iso_def zpad_def dec.simps oid_text_def zeros hex.simps digit_def)

theorem create_then_list_witness:
  "fst (create_car shop mini) = Ok [(''id'', VStr ''00000000000000000000000e'')] \<and>
   list_cars (snd (create_car shop mini)) None None None None (Some 4) =
     Ok [[(''make'', VStr ''Tesla''), (''model'', VStr ''Model 3''), (''price'', VFloat 32990),
          (''listed_on'', VStr ''2024-03-09''), (''id'', VStr ''00000000000000000000000a'')],
         [(''make'', VStr ''Tesla Model''), (''model'', VStr ''S''), (''price'', VFloat 25000),
          (''id'', VStr ''00000000000000000000000b'')],
         [(''make'', VStr ''Toyota''), (''model'', VStr ''Camry''), (''price'', VFloat 18990),
          (''id'', VStr ''00000000000000000000000c'')],
         [(''make'', VStr ''Mini''), (''model'', VStr ''Cooper''), (''year'', VInt 2018),
          (''price'', VFloat 15500), (''mileage'', VInt 41000),
          (''fuel_type'', VStr ''Gasoline''), (''transmission'', VStr ''Manual''),
          (''color'', VStr ''Red''), (''features'', VList [VStr ''Sunroof'']),
          (''photos'', VList []), (''listed_on'', VStr ''2024-03-09''),
          (''condition'', VStr ''Used''), (''id'', VStr ''00000000000000000000000e'')]]"
proof -
  have a: "fst (create_car shop mini) = Ok [(''id'', VStr ''00000000000000000000000e'')]"
    by (simp add: create_car_def create_document_def shop_def oid_text_def zeros hex.simps digit_def)
  then have h: "create_car shop mini = (Ok [(''id'', VStr ''00000000000000000000000e'')], snd (create_car shop mini))"
    by (simp add: prod_eq_iff)
  have l: "length (collections shop ''car'') < 4"
    by (simp add: shop_def)
  from create_then_list [OF h l] have
    "list_cars (snd (create_car shop mini)) None None None None (Some 4) =
       Ok (map normalize_car (collections shop ''car'') @
           [map iso_entry (mapping (CarModel mini)) @ [(''id'', VStr (oid_text (next_id shop)))]])"
    by blast
  also have "map normalize_car (collections shop ''car'') @
           [map iso_entry (mapping (CarModel mini)) @ [(''id'', VStr (oid_text (next_id shop)))]] =
     [[(''make'', VStr ''Tesla''), (''model'', VStr ''Model 3''), (''price'', VFloat 32990),
       (''listed_on'', VStr ''2024-03-09''), (''id'', VStr ''00000000000000000000000a'')],
      [(''make'', VStr ''Tesla Model''), (''model'', VStr ''S''), (''price'', VFloat 25000),
       (''id'', VStr ''00000000000000000000000b'')],
      [(''make'', VStr ''Toyota''), (''model'', VStr ''Camry''), (''price'', VFloat 18990),
       (''id'', VStr ''00000000000000000000000c'')],
      [(''make'', VStr ''Mini''), (''model'', VStr ''Cooper''), (''year'', VInt 2018),
       (''price'', VFloat 15500), (''mileage'', VInt 41000),
       (''fuel_type'', VStr ''Gasoline''), (''transmission'', VStr ''Manual''),
       (''color'', VStr ''Red''), (''features'', VList [VStr ''Sunroof'']),
       (''photos'', VList []), (''listed_on'', VStr ''2024-03-09''),
       (''condition'', VStr ''Used''), (''id'', VStr ''00000000000000000000000e'')]]"
    by (simp add: shop_def mini_def normalize_car_def set_id_def iso_entry_def iso_val_def
        date_iso_def zpad_def dec.simps oid_text_def zeros hex.simps digit_def VStrs_def date_val_def)
  finally show ?thesis
    using a by simp
qed

section \<open>Filters on make and model\<close>

lemma atom_of_plain: "c \<notin> set metachars \<Longrightarrow> atom_of c = Some (Lit c)"
  by (auto simp: atom_of_def metachars_def)

lemma star_meta: "c \<notin> set metachars \<Longrightarrow> c \<noteq> CHR ''*''"
  by (auto simp: metachars_def)

lemma parse_items_plain:
  "\<forall>c \<in> set m. c \<notin> set metachars \<Longrightarrow> parse_items m = Some (map (One \<circ> Lit) m)"
proof (induction m rule: parse_items.induct)
  case 1
  then show ?case by simp
next
  case (2 c)
  then show ?case by (simp add: atom_of_plain)
next
  case (3 c e cs)
  from "3.prems" have c: "atom_of c = Some (Lit c)" and e: "e \<noteq> CHR ''*''"
    by (simp_all add: atom_of_plain star_meta)
  from "3.IH"(2) [OF c e] "3.prems" have "parse_items (e # cs) = Some (map (One \<circ> Lit) (e # cs))"
    by simp
  with c e show ?case by simp
qed

lemma pcre_plain:
  assumes "\<forall>c \<in> set m. c \<notin> set metachars"
  shows "pcre (''^'' @ m @ ''$'') ''i'' = Inr (matches True (map (One \<circ> Lit) m))"
proof -
  have "butlast (tl (''^'' @ m @ ''$'')) = m"
    by (simp add: butlast_append)
  moreover have "last (''^'' @ m @ ''$'') = CHR ''$''" by simp
  ultimately show ?thesis
    using parse_items_plain [OF assms] by (simp add: pcre_def)
qed

lemma matches_plain:
  "newline \<notin> set s \<Longrightarrow> matches True (map (One \<circ> Lit) m) s \<longleftrightarrow> same_ignoring_case s m"
proof (induction m arbitrary: s)
  case Nil
  then show ?case by (auto simp: same_ignoring_case_def)
next
  case (Cons a m)
  then show ?case
    by (cases s) (auto simp: same_ignoring_case_def)
qed

lemma make_query_plain:
  assumes "m \<noteq> []" and "\<forall>c \<in> set m. c \<notin> set metachars"
  shows "compile_query pcre (list_cars_query (Some m) None None None) =
           Inr (\<lambda>d. literal_field ''make'' m d \<and> True)"
    and "compile_query pcre (list_cars_query None (Some m) None None) =
           Inr (\<lambda>d. literal_field ''model'' m d \<and> True)"
  using assms(1) pcre_plain [OF assms(2)]
  by (simp_all add: list_cars_query_def literal_field_def)

text \<open>
  C2, amended. For every parameter \<open>make\<close> (or \<open>model\<close>) that is not empty and holds no
  metacharacter of regular expressions, on a store that matches patterns as \<open>pcre\<close>
  does: the listing returns the normalized documents, up to the limit, whose field is a
  string that the pattern accepts; and a stored string without a line break is accepted
  exactly when it equals the parameter up to the case of letters. So \<open>tesla\<close> matches
  the make \<open>Tesla\<close> and not the make \<open>Tesla Model\<close>.
\<close>

theorem literal_make_filter:
  assumes "m \<noteq> []" and "\<forall>c \<in> set m. c \<notin> set metachars"
    and "connected st" and "regex st = pcre"
  shows "list_cars st (Some m) None None None limit =
           Ok (map normalize_car
                 (take (case limit of None \<Rightarrow> 20 | Some n \<Rightarrow> n)
                    (filter (literal_field ''make'' m) (collections st ''car'')))) \<and>
         list_cars st None (Some m) None None limit =
           Ok (map normalize_car
                 (take (case limit of None \<Rightarrow> 20 | Some n \<Rightarrow> n)
                    (filter (literal_field ''model'' m) (collections st ''car'')))) \<and>
         (\<forall>k d. literal_field k m d \<longrightarrow> (\<exists>s. map_of d k = Some (VStr s))) \<and>
         (\<forall>k d s. map_of d k = Some (VStr s) \<and> newline \<notin> set s \<longrightarrow>
            (literal_field k m d \<longleftrightarrow> same_ignoring_case s m))"
proof -
  note q = make_query_plain [OF assms(1,2)]
  have a: "list_cars st (Some m) None None None limit =
           Ok (map normalize_car
                 (take (case limit of None \<Rightarrow> 20 | Some n \<Rightarrow> n)
                    (filter (literal_field ''make'' m) (collections st ''car''))))"
    using list_cars_Ok [of st "Some m" None None None _ limit] assms(3,4) q(1) by simp
  have b: "list_cars st None (Some m) None None limit =
           Ok (map normalize_car
                 (take (case limit of None \<Rightarrow> 20 | Some n \<Rightarrow> n)
                    (filter (literal_field ''model'' m) (collections st ''car''))))"
    using list_cars_Ok [of st None "Some m" None None _ limit] assms(3,4) q(2) by simp
  have c: "\<forall>k d. literal_field k m d \<longrightarrow> (\<exists>s. map_of d k = Some (VStr s))"
    by (auto simp: literal_field_def split: option.splits val.splits)
  have d: "\<forall>k d s. map_of d k = Some (VStr s) \<and> newline \<notin> set s \<longrightarrow>
            (literal_field k m d \<longleftrightarrow> same_ignoring_case s m)"
    by (simp add: literal_field_def matches_plain)
  from a b c d show ?thesis by blast
qed

text \<open>
  A parameter is put into the pattern as it is: its metacharacters are read as
  metacharacters, so that \<open>Tesla.*\<close> matches the make \<open>Tesla Model\<close>.
\<close>

lemma unescaped_pattern_example:
  "list_cars shop (Some ''Tesla.*'') None None None None =
     Ok [[(''make'', VStr ''Tesla''), (''model'', VStr ''Model 3''), (''price'', VFloat 32990),
          (''listed_on'', VStr ''2024-03-09''), (''id'', VStr ''00000000000000000000000a'')],
         [(''make'', VStr ''Tesla Model''), (''model'', VStr ''S''), (''price'', VFloat 25000),
          (''id'', VStr ''00000000000000000000000b'')]]"
  by (simp add: list_cars_def get_documents_def shop_def list_cars_query_def pcre_def
      atom_of_def metachars_def newline_def lower_def
      normalize_car_def set_id_def iso_entry_def iso_val_def
      date_iso_def zpad_def dec.simps oid_text_def zeros hex.simps digit_def)

text \<open>
  C2, as the claim states it, fails: for the empty string as \<open>make\<close> the filter has no
  constraint on the make, and the listing returns records whose make is not the empty
  string.
\<close>

theorem empty_make_counterexample:
  "list_cars shop (Some []) None None None None =
     Ok [[(''make'', VStr ''Tesla''), (''model'', VStr ''Model 3''), (''price'', VFloat 32990),
          (''listed_on'', VStr ''2024-03-09''), (''id'', VStr ''00000000000000000000000a'')],
         [(''make'', VStr ''Tesla Model''), (''model'', VStr ''S''), (''price'', VFloat 25000),
          (''id'', VStr ''00000000000000000000000b'')],
         [(''make'', VStr ''Toyota''), (''model'', VStr ''Camry''), (''price'', VFloat 18990),
          (''id'', VStr ''00000000000000000000000c'')]]"
  by (simp add: list_cars_def get_documents_def shop_def list_cars_query_def
      normalize_car_def set_id_def iso_entry_def iso_val_def
      date_iso_def zpad_def dec.simps oid_text_def zeros hex.simps digit_def)

theorem literal_make_filter_witness:
  "list_cars shop (Some ''tesla'') None None None None =
     Ok [[(''make'', VStr ''Tesla''), (''model'', VStr ''Model 3''), (''price'', VFloat 32990),
          (''listed_on'', VStr ''2024-03-09''), (''id'', VStr ''00000000000000000000000a'')]] \<and>
   same_ignoring_case ''Tesla'' ''tesla'' \<and>
   \<not> same_ignoring_case ''Tesla Model'' ''tesla''"
proof -
  have m: "\<forall>c \<in> set ''tesla''. c \<notin> set metachars"
    by (simp add: metachars_def)
  have c: "connected shop" and r: "regex shop = pcre"
    by (simp_all add: shop_def)
  have f: "filter (literal_field ''make'' ''tesla'') (collections shop ''car'') =
      [[(''_id'', VObjectId 10), (''make'', VStr ''Tesla''), (''model'', VStr ''Model 3''),
        (''price'', VFloat 32990), (''listed_on'', VDate 2024 3 9)]]"
    by (simp add: shop_def literal_field_def lower_def)
  have n: "map normalize_car
      [[(''_id'', VObjectId 10), (''make'', VStr ''Tesla''), (''model'', VStr ''Model 3''),
        (''price'', VFloat 32990), (''listed_on'', VDate 2024 3 9)]] =
      [[(''make'', VStr ''Tesla''), (''model'', VStr ''Model 3''), (''price'', VFloat 32990),
          (''listed_on'', VStr ''2024-03-09''), (''id'', VStr ''00000000000000000000000a'')]]"
    by (simp add: normalize_car_def set_id_def iso_entry_def iso_val_def
      date_iso_def zpad_def dec.simps oid_text_def zeros hex.simps digit_def)
  have s: "same_ignoring_case ''Tesla'' ''tesla'' \<and> \<not> same_ignoring_case ''Tesla Model'' ''tesla''"
    by (simp add: same_ignoring_case_def lower_def)
  from literal_make_filter [OF _ m c r, of None] f n s show ?thesis
    by simp
qed

section \<open>Normalization\<close>














end
